theory Spec2Isabelle
  imports Main "HOL-Library.AList"
begin

section \<open>Values of the rotation handler\<close>

text \<open>
  The handler of \<^verbatim>\<open>secretsmanagerLambda.js\<close> rotates a database credential in four
  steps. It talks to three external services: the Secrets Manager client, the RDS client
  and the MySQL driver. Every function of the source is embedded as a function that
  threads a world \<open>'w\<close> through the service calls it makes, in the order in which the
  source makes them, and returns \<open>Inl\<close> of the exception where the JavaScript promise
  is rejected and \<open>Inr\<close> of the value where it is fulfilled. Calls to the logger are
  left out.
\<close>

text \<open>
  A number of a document. \<^verbatim>\<open>JSON.parse\<close> reads a number as a double and
  \<^verbatim>\<open>JSON.stringify\<close> writes the double back. On the integers from
  -9007199254740991 to 9007199254740991 (the safe integers of JavaScript) both are
  exact, and these are the numbers of the model: fractions and larger integers, which
  the two can change on the way, are outside it.
\<close>

typedef safe_integer = "{n :: int. - 9007199254740991 \<le> n \<and> n \<le> 9007199254740991}"
  morphisms integer_of number
  by (rule exI [of _ 0]) simp

text \<open>
  A value as \<^verbatim>\<open>JSON.parse\<close> builds it. An object keeps its properties in order.
\<close>

datatype json =
    JNull
  | JBool bool
  | JNum safe_integer
  | JStr string
  | JArr "json list"
  | JObj "(string \<times> json) list"

text \<open>
  The \<^verbatim>\<open>SecretString\<close> of a version is represented by the document it denotes:
  \<open>Text j\<close> is a string that \<^verbatim>\<open>JSON.parse\<close> reads as \<open>j\<close> and that
  \<^verbatim>\<open>JSON.stringify\<close> writes for \<open>j\<close>; \<open>Invalid\<close> is any value that
  \<^verbatim>\<open>JSON.parse\<close> rejects (no string at all, or text that is not JSON). Reading a
  document and writing it back gives the same document because its numbers are safe
  integers.
\<close>

datatype secret_string = Invalid | Text json

text \<open>
  The exceptions the source can meet: the two the language raises itself, and the
  rejection of a service call, kept with the service's error code.
\<close>

datatype error = SyntaxError | TypeError | ServiceError string

definition JSON_parse :: "secret_string \<Rightarrow> error + json" where
  "JSON_parse s = (case s of Invalid \<Rightarrow> Inl SyntaxError | Text j \<Rightarrow> Inr j)"

definition JSON_stringify :: "json \<Rightarrow> secret_string" where
  "JSON_stringify j = Text j"

text \<open>
  Reading a property \<^verbatim>\<open>obj.k\<close>: a \<^verbatim>\<open>TypeError\<close> on \<^verbatim>\<open>null\<close>, the
  property's value on an object, \<^verbatim>\<open>undefined\<close> (\<open>None\<close>) when the object has no
  such property and on every other value (the handler reads \<^verbatim>\<open>password\<close>,
  \<^verbatim>\<open>host\<close>, \<^verbatim>\<open>username\<close> and \<^verbatim>\<open>port\<close>, which no array, string, number
  or boolean has).
\<close>

fun get_property :: "json \<Rightarrow> string \<Rightarrow> error + json option" where
  "get_property JNull k = Inl TypeError"
| "get_property (JObj kvs) k = Inr (map_of kvs k)"
| "get_property j k = Inr None"

text \<open>
  Writing a property \<^verbatim>\<open>obj.k = v\<close>, as far as \<^verbatim>\<open>JSON.stringify\<close> shows it
  afterwards: a \<^verbatim>\<open>TypeError\<close> on \<^verbatim>\<open>null\<close>; on an object the property is
  replaced in place or added at the end; on an array the property is set but is not
  written by \<^verbatim>\<open>JSON.stringify\<close>; on a string, number or boolean the assignment is
  dropped (the file is not in strict mode).
\<close>

fun set_property :: "json \<Rightarrow> string \<Rightarrow> json \<Rightarrow> error + json" where
  "set_property JNull k v = Inl TypeError"
| "set_property (JObj kvs) k v = Inr (JObj (AList.update k v kvs))"
| "set_property j k v = Inr j"

text \<open>
  \<^verbatim>\<open>JSON.parse\<close> leaves one property for a name, whatever the text repeats. A
  document is proper when no object in it repeats a name: for such a document the list
  of properties is the object that \<^verbatim>\<open>JSON.parse\<close> builds, and \<open>map_of\<close> is the
  value of a property. Documents that repeat a name are outside the model.
\<close>

primrec proper :: "json \<Rightarrow> bool" where
  "proper JNull = True"
| "proper (JBool b) = True"
| "proper (JNum n) = True"
| "proper (JStr s) = True"
| "proper (JArr xs) = list_all (\<lambda>b. b) (map proper xs)"
| "proper (JObj kvs) =
     (distinct (map fst kvs) \<and> list_all (\<lambda>p. snd p) (map (map_prod id proper) kvs))"

text \<open>The options object given to \<^verbatim>\<open>mysql.createConnection\<close>.\<close>

record connection_config =
  host :: "json option"
  user :: "json option"
  password :: "json option"
  port :: "json option"
  connect_timeout :: nat

text \<open>The Lambda event.\<close>

record event =
  Step :: string
  ClientRequestToken :: string
  SecretId :: string

section \<open>The services the handler calls\<close>

text \<open>
  The module scope of the source: \<^verbatim>\<open>config.secretsmanager.name\<close> (the module
  \<^verbatim>\<open>./modules/config\<close> is not part of the sources, so the name is a parameter), the
  five operations of the Secrets Manager client, \<^verbatim>\<open>modifyDBCluster\<close> of the RDS
  client and \<^verbatim>\<open>createConnection\<close> of the MySQL driver. An operation takes the
  fields of its request in the order given below, and the world; it returns the fields
  of the response that the source reads, or the error, and the world after the call.

  \<^item> \<open>getSecretValue SecretId VersionId\<close> returns \<^verbatim>\<open>SecretString\<close>;
  \<^item> \<open>describeSecret SecretId\<close> returns \<^verbatim>\<open>VersionIdsToStages\<close>, \<open>None\<close> when
    the response has no such field;
  \<^item> \<open>getRandomPassword ExcludeCharacters\<close> returns \<^verbatim>\<open>RandomPassword\<close>;
  \<^item> \<open>putSecretValue SecretId ClientRequestToken SecretString VersionStages\<close>;
  \<^item> \<open>updateSecretVersionStage SecretId VersionStage MoveToVersionId RemoveFromVersionId\<close>;
  \<^item> \<open>modifyDBCluster DBClusterIdentifier ApplyImmediately MasterUserPassword\<close>;
  \<^item> \<open>createConnection options\<close>.
\<close>

record 'w env =
  secretsmanager_name :: string
  getSecretValue :: "string \<Rightarrow> string option \<Rightarrow> 'w \<Rightarrow> (error + secret_string) \<times> 'w"
  describeSecret :: "string \<Rightarrow> 'w \<Rightarrow> (error + (string \<times> string list) list option) \<times> 'w"
  getRandomPassword :: "string \<Rightarrow> 'w \<Rightarrow> (error + string) \<times> 'w"
  putSecretValue ::
    "string \<Rightarrow> string \<Rightarrow> secret_string \<Rightarrow> string list \<Rightarrow> 'w \<Rightarrow> (error + unit) \<times> 'w"
  updateSecretVersionStage ::
    "string \<Rightarrow> string \<Rightarrow> string \<Rightarrow> string option \<Rightarrow> 'w \<Rightarrow> (error + unit) \<times> 'w"
  modifyDBCluster :: "string \<Rightarrow> bool \<Rightarrow> json option \<Rightarrow> 'w \<Rightarrow> (error + unit) \<times> 'w"
  createConnection :: "connection_config \<Rightarrow> 'w \<Rightarrow> (error + unit) \<times> 'w"

section \<open>The four steps\<close>

text \<open>
  Building a client (\<^verbatim>\<open>new AWS.SecretsManager\<close>, \<^verbatim>\<open>new AWS.RDS\<close>) calls no
  service, so the clients do not appear: a step takes the environment in their place.
\<close>

text \<open>The characters \<^verbatim>\<open>/ @ " ' \\<close> that \<^verbatim>\<open>createSecret\<close> excludes from a password.\<close>

definition ExcludeCharacters :: string where
  "ExcludeCharacters = [CHR ''/'', CHR ''@'', CHR 0x22, CHR 0x27, CHR 0x5C]"

text \<open>
  \<^verbatim>\<open>createSecret\<close>: reads the current version and its \<^verbatim>\<open>password\<close>, describes the
  secret, then looks the token's version up. When the lookup succeeds nothing is written
  and the result is \<^verbatim>\<open>undefined\<close> (\<open>None\<close>). When it fails, for whatever reason, a
  password is generated, stored in the parsed object and the object is put as the
  token's version with the stage \<^verbatim>\<open>AWSPENDING\<close>; a rejected put is logged and the
  result is \<^verbatim>\<open>undefined\<close> again.
\<close>

definition createSecret :: "'w env \<Rightarrow> string \<Rightarrow> 'w \<Rightarrow> (error + unit option) \<times> 'w" where
  "createSecret E token w0 =
     (let secretName = secretsmanager_name E in
      case getSecretValue E secretName None w0 of
        (Inl e, w1) \<Rightarrow> (Inl e, w1)
      | (Inr secretString, w1) \<Rightarrow>
          (case JSON_parse secretString of
             Inl e \<Rightarrow> (Inl e, w1)
           | Inr secretStringObject \<Rightarrow>
               (case get_property secretStringObject ''password'' of
                  Inl e \<Rightarrow> (Inl e, w1)
                | Inr password' \<Rightarrow>
                    (case describeSecret E secretName w1 of
                       (Inl e, w2) \<Rightarrow> (Inl e, w2)
                     | (Inr describesecret, w2) \<Rightarrow>
                         (case getSecretValue E secretName (Some token) w2 of
                            (Inr gettingSecret, w3) \<Rightarrow> (Inr None, w3)
                          | (Inl err, w3) \<Rightarrow>
                              (case getRandomPassword E ExcludeCharacters w3 of
                                 (Inl e, w4) \<Rightarrow> (Inl e, w4)
                               | (Inr randomPassword, w4) \<Rightarrow>
                                   (case set_property secretStringObject ''password''
                                           (JStr randomPassword) of
                                      Inl e \<Rightarrow> (Inl e, w4)
                                    | Inr newObject \<Rightarrow>
                                        (case putSecretValue E secretName token
                                                (JSON_stringify newObject) [''AWSPENDING''] w4 of
                                           (Inr r, w5) \<Rightarrow> (Inr (Some r), w5)
                                         | (Inl err2, w5) \<Rightarrow> (Inr None, w5)))))))))"

text \<open>
  \<^verbatim>\<open>setSecret\<close>: reads the token's version and its \<^verbatim>\<open>password\<close>, asks RDS to set
  the master password of the cluster \<^verbatim>\<open>phat-cluster\<close>, then opens a connection with
  the new password. Both calls sit in a \<^verbatim>\<open>try\<close> whose \<^verbatim>\<open>catch\<close> only logs, so
  their outcome is dropped.
\<close>

definition setSecret :: "'w env \<Rightarrow> string \<Rightarrow> 'w \<Rightarrow> (error + unit) \<times> 'w" where
  "setSecret E token w0 =
     (case getSecretValue E (secretsmanager_name E) (Some token) w0 of
        (Inl e, w1) \<Rightarrow> (Inl e, w1)
      | (Inr secretString, w1) \<Rightarrow>
          (case JSON_parse secretString of
             Inl e \<Rightarrow> (Inl e, w1)
           | Inr secretStringObject \<Rightarrow>
               (case get_property secretStringObject ''password'' of
                  Inl e \<Rightarrow> (Inl e, w1)
                | Inr newPassword \<Rightarrow>
                    (let w2 = snd (modifyDBCluster E ''phat-cluster'' True newPassword w1);
                         w3 = snd (createConnection E
                                \<lparr> host = Some (JStr
                                     ''phat-cluster.cluster-cbimfz1gncny.us-east-1.rds.amazonaws.com''),
                                  user = Some (JStr ''phat1234''),
                                  password = newPassword,
                                  port = Some (JNum (number 3306)),
                                  connect_timeout = 5 \<rparr> w2)
                     in (Inr (), w3)))))"

text \<open>
  \<^verbatim>\<open>getConnection\<close>: builds the options from the secret object and opens the
  connection; any exception (also the \<^verbatim>\<open>TypeError\<close> of reading a property of
  \<^verbatim>\<open>null\<close>) is logged and the result is \<^verbatim>\<open>null\<close> (\<open>None\<close>).
\<close>

definition getConnection :: "'w env \<Rightarrow> json \<Rightarrow> 'w \<Rightarrow> unit option \<times> 'w" where
  "getConnection E secretStingObject w =
     (case get_property secretStingObject ''host'' of
        Inl e \<Rightarrow> (None, w)
      | Inr h \<Rightarrow>
          (case get_property secretStingObject ''username'' of
             Inl e \<Rightarrow> (None, w)
           | Inr u \<Rightarrow>
               (case get_property secretStingObject ''password'' of
                  Inl e \<Rightarrow> (None, w)
                | Inr p \<Rightarrow>
                    (case get_property secretStingObject ''port'' of
                       Inl e \<Rightarrow> (None, w)
                     | Inr q \<Rightarrow>
                         (case createConnection E
                                 \<lparr> host = h, user = u, password = p, port = q,
                                   connect_timeout = 5 \<rparr> w of
                            (Inl e, w') \<Rightarrow> (None, w')
                          | (Inr c, w') \<Rightarrow> (Some c, w'))))))"

text \<open>
  \<^verbatim>\<open>testSecret\<close>: the whole body is in a \<^verbatim>\<open>try\<close> whose \<^verbatim>\<open>catch\<close> only logs.
  It reads the token's version, parses it and calls \<^verbatim>\<open>getConnection\<close>, whose
  result is neither awaited nor looked at. The call runs up to its first
  \<^verbatim>\<open>await\<close> before \<^verbatim>\<open>testSecret\<close> goes on, so the connection is asked for
  within the step; what becomes of it has no part in the step's result.
\<close>

definition testSecret :: "'w env \<Rightarrow> string \<Rightarrow> 'w \<Rightarrow> (error + unit) \<times> 'w" where
  "testSecret E token w0 =
     (case getSecretValue E (secretsmanager_name E) (Some token) w0 of
        (Inl err, w1) \<Rightarrow> (Inr (), w1)
      | (Inr secretString, w1) \<Rightarrow>
          (case JSON_parse secretString of
             Inl err \<Rightarrow> (Inr (), w1)
           | Inr secretStringObject \<Rightarrow>
               (Inr (), snd (getConnection E secretStringObject w1))))"

text \<open>
  The loop of \<^verbatim>\<open>finishSecret\<close> over \<^verbatim>\<open>Object.entries(allVersion)\<close>: the variable
  \<^verbatim>\<open>curretVersion\<close> ends as the last key whose first stage is \<^verbatim>\<open>AWSCURRENT\<close>, and
  stays \<^verbatim>\<open>undefined\<close> when there is none.
\<close>

fun curretVersion_loop :: "(string \<times> string list) list \<Rightarrow> string option \<Rightarrow> string option" where
  "curretVersion_loop [] curretVersion = curretVersion"
| "curretVersion_loop ((key, val) # rest) curretVersion =
     curretVersion_loop rest
       (if (case val of [] \<Rightarrow> False | s # ss \<Rightarrow> s = ''AWSCURRENT'')
        then Some key else curretVersion)"

text \<open>
  \<^verbatim>\<open>finishSecret\<close>: describes the secret, finds the current version, asks the store
  to move \<^verbatim>\<open>AWSCURRENT\<close> from it to the token's version, and describes the secret
  again. Nothing is caught: the first failing call rejects the step.
  \<^verbatim>\<open>Object.entries(undefined)\<close> is a \<^verbatim>\<open>TypeError\<close>.
\<close>

definition finishSecret :: "'w env \<Rightarrow> string \<Rightarrow> 'w \<Rightarrow> (error + unit) \<times> 'w" where
  "finishSecret E token w0 =
     (case describeSecret E (secretsmanager_name E) w0 of
        (Inl e, w1) \<Rightarrow> (Inl e, w1)
      | (Inr VersionIdsToStages, w1) \<Rightarrow>
          (case VersionIdsToStages of
             None \<Rightarrow> (Inl TypeError, w1)
           | Some allVersion \<Rightarrow>
               (let curretVersion = curretVersion_loop allVersion None in
                case updateSecretVersionStage E (secretsmanager_name E) ''AWSCURRENT'' token
                       curretVersion w1 of
                  (Inl e, w2) \<Rightarrow> (Inl e, w2)
                | (Inr r, w2) \<Rightarrow>
                    (case describeSecret E (secretsmanager_name E) w2 of
                       (Inl e, w3) \<Rightarrow> (Inl e, w3)
                     | (Inr describesecret, w3) \<Rightarrow> (Inr (), w3)))))"

text \<open>
  \<^verbatim>\<open>handler\<close>: reads the step, the token and the secret id of the event and
  dispatches on the step; the value of a step is dropped, its rejection is the
  handler's. The \<^verbatim>\<open>default\<close> branch is empty.
\<close>

definition handler :: "'w env \<Rightarrow> event \<Rightarrow> 'w \<Rightarrow> (error + unit) \<times> 'w" where
  "handler E ev w =
     (let step = Step ev; token = ClientRequestToken ev; arn = SecretId ev in
      if step = ''createSecret'' then
        (case createSecret E token w of
           (Inl e, w') \<Rightarrow> (Inl e, w')
         | (Inr successResponse, w') \<Rightarrow> (Inr (), w'))
      else if step = ''setSecret'' then setSecret E token w
      else if step = ''testSecret'' then testSecret E token w
      else if step = ''finishSecret'' then finishSecret E token w
      else (Inr (), w))"

section \<open>Recording the calls\<close>

text \<open>
  A call to a service, with the fields of its request. \<open>traced E\<close> is the
  environment \<open>E\<close> with a log: every operation appends its call to the log and then
  does what it does in \<open>E\<close>. Running a step in \<open>traced E\<close> from an empty log gives
  the list of the service calls the step makes, in order.
\<close>

datatype call =
    GetSecretValue string "string option"
  | DescribeSecret string
  | GetRandomPassword string
  | PutSecretValue string string secret_string "string list"
  | UpdateSecretVersionStage string string string "string option"
  | ModifyDBCluster string bool "json option"
  | CreateConnection connection_config

definition logged :: "call \<Rightarrow> ('w \<Rightarrow> 'a \<times> 'w) \<Rightarrow> 'w \<times> call list \<Rightarrow> 'a \<times> 'w \<times> call list" where
  "logged c f s = (case f (fst s) of (r, w') \<Rightarrow> (r, w', snd s @ [c]))"

definition traced :: "'w env \<Rightarrow> ('w \<times> call list) env" where
  "traced E =
     \<lparr> secretsmanager_name = secretsmanager_name E,
       getSecretValue = (\<lambda>i v. logged (GetSecretValue i v) (getSecretValue E i v)),
       describeSecret = (\<lambda>i. logged (DescribeSecret i) (describeSecret E i)),
       getRandomPassword = (\<lambda>x. logged (GetRandomPassword x) (getRandomPassword E x)),
       putSecretValue =
         (\<lambda>i t s l. logged (PutSecretValue i t s l) (putSecretValue E i t s l)),
       updateSecretVersionStage =
         (\<lambda>i l m r. logged (UpdateSecretVersionStage i l m r)
            (updateSecretVersionStage E i l m r)),
       modifyDBCluster = (\<lambda>i a p. logged (ModifyDBCluster i a p) (modifyDBCluster E i a p)),
       createConnection = (\<lambda>c. logged (CreateConnection c) (createConnection E c)) \<rparr>"

text \<open>The calls a step makes in \<open>E\<close> from the world \<open>w\<close>.\<close>

definition calls :: "(('w \<times> call list) env \<Rightarrow> 'w \<times> call list \<Rightarrow> 'a \<times> 'w \<times> call list) \<Rightarrow>
    'w env \<Rightarrow> 'w \<Rightarrow> call list" where
  "calls step E w = snd (snd (step (traced E) (w, [])))"

text \<open>A call that asks a service to change something.\<close>

fun mutating :: "call \<Rightarrow> bool" where
  "mutating (PutSecretValue i t s l) = True"
| "mutating (UpdateSecretVersionStage i l m r) = True"
| "mutating (ModifyDBCluster i a p) = True"
| "mutating c = False"

section \<open>A store and a target\<close>

text \<open>
  Modelled from the spec: the SecretStore and the CredentialTarget of section 6 are
  services outside the sources. The world below follows the data model of section 3
  and the interface of section 6:

  \<^item> the store holds one secret; a request that names another secret is rejected;
  \<^item> a version has a content that never changes and holds zero or one staging label;
    versions are kept in the order of their creation;
  \<^item> \<^verbatim>\<open>getVersion\<close> and \<^verbatim>\<open>getCurrentVersion\<close> (a \<^verbatim>\<open>getSecretValue\<close> with
    and without a version id) and \<^verbatim>\<open>listVersionLabels\<close> (\<^verbatim>\<open>describeSecret\<close>)
    change nothing; the list gives every labelled version with the list of its label,
    which is what \<^verbatim>\<open>finishSecret\<close> iterates over;
  \<^item> \<^verbatim>\<open>putVersion\<close> (\<^verbatim>\<open>putSecretValue\<close>) under an id that exists is accepted
    without effect when the content is the same and rejected otherwise; for a new id
    it adds the version with the first of the given labels (\<^verbatim>\<open>AWSPENDING\<close> when
    none is given) and takes that label from the version that held it: labels move,
    they are never duplicated;
  \<^item> \<^verbatim>\<open>moveLabel\<close> (\<^verbatim>\<open>updateSecretVersionStage\<close>) needs the target version to
    exist, and the label to be on the version it is to be removed from, or on no other
    version when none is named; the target version then holds the label and nothing
    else, the version it was removed from holds \<^verbatim>\<open>AWSPREVIOUS\<close> when the label is
    \<^verbatim>\<open>AWSCURRENT\<close> and no label otherwise, and a version that held
    \<^verbatim>\<open>AWSPREVIOUS\<close> before no longer does;
  \<^item> random passwords are drawn from a list kept in the world, without the excluded
    characters;
  \<^item> the target has one account: \<^verbatim>\<open>authenticate\<close> (\<^verbatim>\<open>createConnection\<close>) is
    accepted when the target is reachable and the password is the account's;
    \<^verbatim>\<open>applyNewPassword\<close> (\<^verbatim>\<open>modifyDBCluster\<close>) needs the target to be reachable
    and the cluster identifier to be the target's.
\<close>

record version =
  content :: secret_string
  label :: "string option"

record world =
  secret :: string
  versions :: "(string \<times> version) list"
  entropy :: "string list"
  cluster :: string
  master_password :: string
  reachable :: bool

definition not_found :: error where
  "not_found = ServiceError ''ResourceNotFoundException''"

definition invalid_parameter :: error where
  "invalid_parameter = ServiceError ''InvalidParameterException''"

definition labelled :: "string \<Rightarrow> string \<times> version \<Rightarrow> bool" where
  "labelled l p = (label (snd p) = Some l)"

text \<open>The ids of the versions that hold the label \<open>l\<close>, in the order of the store.\<close>

definition holders :: "string \<Rightarrow> world \<Rightarrow> string list" where
  "holders l w = map fst (filter (labelled l) (versions w))"

definition store_getSecretValue ::
    "string \<Rightarrow> string option \<Rightarrow> world \<Rightarrow> (error + secret_string) \<times> world" where
  "store_getSecretValue i vid w =
     (if i = secret w then
        (case vid of
           Some v \<Rightarrow>
             (case map_of (versions w) v of
                None \<Rightarrow> (Inl not_found, w)
              | Some r \<Rightarrow> (Inr (content r), w))
         | None \<Rightarrow>
             (case find (labelled ''AWSCURRENT'') (versions w) of
                None \<Rightarrow> (Inl not_found, w)
              | Some p \<Rightarrow> (Inr (content (snd p)), w)))
      else (Inl not_found, w))"

text \<open>The entry of a version in \<^verbatim>\<open>VersionIdsToStages\<close>.\<close>

definition listed :: "string \<times> version \<Rightarrow> string \<times> string list" where
  "listed p = (fst p, case label (snd p) of None \<Rightarrow> [] | Some l \<Rightarrow> [l])"

definition store_describeSecret ::
    "string \<Rightarrow> world \<Rightarrow> (error + (string \<times> string list) list option) \<times> world" where
  "store_describeSecret i w =
     (if i = secret w then
        (Inr (Some (map listed (filter (\<lambda>p. label (snd p) \<noteq> None) (versions w)))), w)
      else (Inl not_found, w))"

definition store_getRandomPassword :: "string \<Rightarrow> world \<Rightarrow> (error + string) \<times> world" where
  "store_getRandomPassword excluded w =
     (case entropy w of
        [] \<Rightarrow> (Inl (ServiceError ''InternalServiceError''), w)
      | p # ps \<Rightarrow> (Inr (filter (\<lambda>c. c \<notin> set excluded) p), w\<lparr>entropy := ps\<rparr>))"

text \<open>The label that a new version gets from the list of a put.\<close>

definition first_label :: "string list \<Rightarrow> string" where
  "first_label ls = (case ls of [] \<Rightarrow> ''AWSPENDING'' | l # ls' \<Rightarrow> l)"

definition without :: "string \<Rightarrow> string \<times> version \<Rightarrow> string \<times> version" where
  "without l p = (if label (snd p) = Some l then (fst p, (snd p)\<lparr>label := None\<rparr>) else p)"

definition store_putSecretValue ::
    "string \<Rightarrow> string \<Rightarrow> secret_string \<Rightarrow> string list \<Rightarrow> world \<Rightarrow> (error + unit) \<times> world" where
  "store_putSecretValue i token s ls w =
     (if i = secret w then
        (case map_of (versions w) token of
           Some r \<Rightarrow>
             (if content r = s then (Inr (), w)
              else (Inl (ServiceError ''ResourceExistsException''), w))
         | None \<Rightarrow>
             (Inr (), w\<lparr>versions := map (without (first_label ls)) (versions w)
                           @ [(token, \<lparr>content = s, label = Some (first_label ls)\<rparr>)]\<rparr>))
      else (Inl not_found, w))"

text \<open>
  The label of the version \<open>v\<close>, which held \<open>lab\<close>, after the label \<open>l\<close> has moved
  from the version \<open>rf\<close> (when there is one) to the version \<open>mv\<close>.
\<close>

definition moved ::
    "string \<Rightarrow> string option \<Rightarrow> string \<Rightarrow> string \<Rightarrow> string option \<Rightarrow> string option" where
  "moved l rf mv v lab =
     (if v = mv then Some l
      else if rf = Some v then (if l = ''AWSCURRENT'' then Some ''AWSPREVIOUS'' else None)
      else if l = ''AWSCURRENT'' \<and> rf \<noteq> None \<and> lab = Some ''AWSPREVIOUS'' then None
      else lab)"

definition relabel :: "string \<Rightarrow> string option \<Rightarrow> string \<Rightarrow> string \<times> version \<Rightarrow> string \<times> version" where
  "relabel l rf mv p = (fst p, (snd p)\<lparr>label := moved l rf mv (fst p) (label (snd p))\<rparr>)"

definition store_updateSecretVersionStage ::
    "string \<Rightarrow> string \<Rightarrow> string \<Rightarrow> string option \<Rightarrow> world \<Rightarrow> (error + unit) \<times> world" where
  "store_updateSecretVersionStage i l mv rf w =
     (if i = secret w then
        (case map_of (versions w) mv of
           None \<Rightarrow> (Inl not_found, w)
         | Some r \<Rightarrow>
             (case rf of
                None \<Rightarrow>
                  (if filter (\<lambda>v. v \<noteq> mv) (holders l w) = [] then
                     (Inr (), w\<lparr>versions := map (relabel l None mv) (versions w)\<rparr>)
                   else (Inl invalid_parameter, w))
              | Some v \<Rightarrow>
                  (if v \<in> set (holders l w) then
                     (if v = mv then (Inr (), w)
                      else (Inr (), w\<lparr>versions := map (relabel l (Some v) mv) (versions w)\<rparr>))
                   else (Inl invalid_parameter, w))))
      else (Inl not_found, w))"

definition target_modifyDBCluster ::
    "string \<Rightarrow> bool \<Rightarrow> json option \<Rightarrow> world \<Rightarrow> (error + unit) \<times> world" where
  "target_modifyDBCluster i apply p w =
     (if reachable w then
        (if i = cluster w then
           (case p of
              None \<Rightarrow> (Inr (), w)
            | Some (JStr s) \<Rightarrow> (Inr (), w\<lparr>master_password := s\<rparr>)
            | Some j \<Rightarrow> (Inl (ServiceError ''InvalidParameterValue''), w))
         else (Inl (ServiceError ''DBClusterNotFoundFault''), w))
      else (Inl (ServiceError ''ServiceUnavailable''), w))"

definition target_createConnection :: "connection_config \<Rightarrow> world \<Rightarrow> (error + unit) \<times> world" where
  "target_createConnection c w =
     (if reachable w \<and> password c = Some (JStr (master_password w)) then (Inr (), w)
      else (Inl (ServiceError ''ER_ACCESS_DENIED_ERROR''), w))"

definition services :: "string \<Rightarrow> world env" where
  "services name =
     \<lparr> secretsmanager_name = name,
       getSecretValue = store_getSecretValue,
       describeSecret = store_describeSecret,
       getRandomPassword = store_getRandomPassword,
       putSecretValue = store_putSecretValue,
       updateSecretVersionStage = store_updateSecretVersionStage,
       modifyDBCluster = target_modifyDBCluster,
       createConnection = target_createConnection \<rparr>"

text \<open>
  The scenario of section 8 of the spec: the secret \<^verbatim>\<open>db-cred\<close> with the current
  version \<^verbatim>\<open>v1\<close>, and the same secret once \<^verbatim>\<open>createSecret\<close> has run for the token
  \<^verbatim>\<open>t2\<close>.
\<close>

definition payload_old :: json where
  "payload_old =
     JObj [(''username'', JStr ''app''), (''password'', JStr ''old''),
           (''host'', JStr ''h''), (''port'', JNum (number 3306))]"

definition payload_new :: json where
  "payload_new =
     JObj [(''username'', JStr ''app''), (''password'', JStr ''new1''),
           (''host'', JStr ''h''), (''port'', JNum (number 3306))]"

definition world_start :: world where
  "world_start =
     \<lparr> secret = ''db-cred'',
       versions = [(''v1'', \<lparr>content = Text payload_old, label = Some ''AWSCURRENT''\<rparr>)],
       entropy = [''new1'', ''new2''],
       cluster = ''phat-cluster'',
       master_password = ''old'',
       reachable = True \<rparr>"

definition world_pending :: world where
  "world_pending =
     \<lparr> secret = ''db-cred'',
       versions = [(''v1'', \<lparr>content = Text payload_old, label = Some ''AWSCURRENT''\<rparr>),
                   (''t2'', \<lparr>content = Text payload_new, label = Some ''AWSPENDING''\<rparr>)],
       entropy = [''new2''],
       cluster = ''phat-cluster'',
       master_password = ''old'',
       reachable = True \<rparr>"

text \<open>The same secret while the target cannot be reached.\<close>

definition world_down :: world where
  "world_down = world_pending\<lparr>reachable := False\<rparr>"

text \<open>A secret whose older version \<^verbatim>\<open>v0\<close> holds \<^verbatim>\<open>AWSPREVIOUS\<close>; no version is pending.\<close>

definition payload_older :: json where
  "payload_older =
     JObj [(''username'', JStr ''app''), (''password'', JStr ''older''),
           (''host'', JStr ''h''), (''port'', JNum (number 3306))]"

definition world_previous :: world where
  "world_previous =
     \<lparr> secret = ''db-cred'',
       versions = [(''v0'', \<lparr>content = Text payload_older, label = Some ''AWSPREVIOUS''\<rparr>),
                   (''v1'', \<lparr>content = Text payload_old, label = Some ''AWSCURRENT''\<rparr>)],
       entropy = [],
       cluster = ''phat-cluster'',
       master_password = ''old'',
       reachable = True \<rparr>"

text \<open>
  A secret whose current password is a password of the generator's default length, and
  a generator that draws this very password next.
\<close>

definition password_32 :: string where
  "password_32 = ''Qw3-rty_uiop+ASDF.ghjk=lzxcvbnm:''"

definition world_same :: world where
  "world_same =
     \<lparr> secret = ''db-cred'',
       versions = [(''v1'', \<lparr>content = Text (JObj [(''username'', JStr ''app''),
                               (''password'', JStr password_32),
                               (''host'', JStr ''h''), (''port'', JNum (number 3306))]),
                            label = Some ''AWSCURRENT''\<rparr>)],
       entropy = [password_32],
       cluster = ''phat-cluster'',
       master_password = password_32,
       reachable = True \<rparr>"

text \<open>The world after a step has been invoked \<open>k\<close> times in a row.\<close>

definition repeated :: "('w \<Rightarrow> 'a \<times> 'w) \<Rightarrow> nat \<Rightarrow> 'w \<Rightarrow> 'w" where
  "repeated step k w = ((\<lambda>w. snd (step w)) ^^ k) w"

text \<open>The secret a call names, when it names one.\<close>

fun secret_of :: "call \<Rightarrow> string option" where
  "secret_of (GetSecretValue i v) = Some i"
| "secret_of (DescribeSecret i) = Some i"
| "secret_of (PutSecretValue i t s l) = Some i"
| "secret_of (UpdateSecretVersionStage i l m r) = Some i"
| "secret_of c = None"

text \<open>The services of the scenario: the configured secret is \<^verbatim>\<open>db-cred\<close>.\<close>

abbreviation svc :: "world env" where
  "svc \<equiv> services ''db-cred''"

text \<open>
  The same services with a description that has no \<^verbatim>\<open>VersionIdsToStages\<close>, and the
  scenario with a generator that has no password left.
\<close>

definition svc_unlisted :: "world env" where
  "svc_unlisted = svc\<lparr>describeSecret := (\<lambda>i w. (Inr None, w))\<rparr>"

definition world_exhausted :: world where
  "world_exhausted = world_pending\<lparr>entropy := []\<rparr>"

text \<open>The scenario once \<^verbatim>\<open>finishSecret\<close> has run for the token \<^verbatim>\<open>t2\<close>.\<close>

definition world_finished :: world where
  "world_finished =
     \<lparr> secret = ''db-cred'',
       versions = [(''v1'', \<lparr>content = Text payload_old, label = Some ''AWSPREVIOUS''\<rparr>),
                   (''t2'', \<lparr>content = Text payload_new, label = Some ''AWSCURRENT''\<rparr>)],
       entropy = [''new2''],
       cluster = ''phat-cluster'',
       master_password = ''old'',
       reachable = True \<rparr>"

section \<open>Facts about the model\<close>

lemmas store_defs = services_def store_getSecretValue_def store_describeSecret_def
  store_getRandomPassword_def store_putSecretValue_def store_updateSecretVersionStage_def
  target_modifyDBCluster_def target_createConnection_def

lemmas world_defs = world_start_def world_pending_def world_down_def world_previous_def
  world_exhausted_def world_finished_def
  world_same_def payload_old_def payload_new_def payload_older_def password_32_def

lemmas label_defs = holders_def labelled_def relabel_def moved_def without_def listed_def
  first_label_def

subsection \<open>The log does not change what a step does\<close>

lemma traced_createSecret:
  "fst (createSecret (traced E) token (w, t)) = fst (createSecret E token w) \<and>
   fst (snd (createSecret (traced E) token (w, t))) = snd (createSecret E token w)"
  by (simp add: createSecret_def traced_def logged_def Let_def
      split: prod.splits sum.splits option.splits)

lemma traced_setSecret:
  "fst (setSecret (traced E) token (w, t)) = fst (setSecret E token w) \<and>
   fst (snd (setSecret (traced E) token (w, t))) = snd (setSecret E token w)"
  by (simp add: setSecret_def traced_def logged_def Let_def split: prod.splits sum.splits)

lemma traced_testSecret:
  "fst (testSecret (traced E) token (w, t)) = fst (testSecret E token w) \<and>
   fst (snd (testSecret (traced E) token (w, t))) = snd (testSecret E token w)"
  by (simp add: testSecret_def getConnection_def traced_def logged_def
      split: prod.splits sum.splits)

lemma traced_finishSecret:
  "fst (finishSecret (traced E) token (w, t)) = fst (finishSecret E token w) \<and>
   fst (snd (finishSecret (traced E) token (w, t))) = snd (finishSecret E token w)"
  by (simp add: finishSecret_def traced_def logged_def Let_def
      split: prod.splits sum.splits option.splits)

subsection \<open>The secret that the calls name\<close>

lemma createSecret_names:
  "list_all (\<lambda>c. secret_of c \<in> {None, Some (secretsmanager_name E)})
     (snd (snd (createSecret (traced E) token (w, []))))"
  by (simp add: createSecret_def traced_def logged_def Let_def
      split: prod.splits sum.splits option.splits)

lemma setSecret_names:
  "list_all (\<lambda>c. secret_of c \<in> {None, Some (secretsmanager_name E)})
     (snd (snd (setSecret (traced E) token (w, []))))"
  by (simp add: setSecret_def traced_def logged_def Let_def split: prod.splits sum.splits)

lemma testSecret_names:
  "list_all (\<lambda>c. secret_of c \<in> {None, Some (secretsmanager_name E)})
     (snd (snd (testSecret (traced E) token (w, []))))"
  by (simp add: testSecret_def getConnection_def traced_def logged_def
      split: prod.splits sum.splits)

lemma finishSecret_names:
  "list_all (\<lambda>c. secret_of c \<in> {None, Some (secretsmanager_name E)})
     (snd (snd (finishSecret (traced E) token (w, []))))"
  by (simp add: finishSecret_def traced_def logged_def Let_def
      split: prod.splits sum.splits option.splits)

lemma handler_names:
  "list_all (\<lambda>c. secret_of c \<in> {None, Some (secretsmanager_name E)})
     (calls (\<lambda>E. handler E ev) E w)"
proof -
  have drop: "\<And>x :: (error + unit option) \<times> 'a \<times> call list.
      snd (snd (case x of (Inl e, w') \<Rightarrow> (Inl e, w') | (Inr r, w') \<Rightarrow> (Inr (), w'))) = snd (snd x)"
    by (simp split: prod.splits sum.splits)
  show ?thesis
    using createSecret_names [of E "ClientRequestToken ev" w]
      setSecret_names [of E "ClientRequestToken ev" w]
      testSecret_names [of E "ClientRequestToken ev" w]
      finishSecret_names [of E "ClientRequestToken ev" w]
    by (simp add: calls_def handler_def Let_def drop)
qed

subsection \<open>What \<^verbatim>\<open>testSecret\<close> touches\<close>

lemma getConnection_obs:
  assumes "\<And>c w. obs (snd (createConnection E c w)) = obs w"
  shows "obs (snd (getConnection E j w)) = obs w"
  using assms [of _ w]
  by (simp add: getConnection_def split: sum.splits prod.splits) (metis snd_conv)

lemma testSecret_obs:
  assumes "\<And>i v w. obs (snd (getSecretValue E i v w)) = obs w"
    and "\<And>c w. obs (snd (createConnection E c w)) = obs w"
  shows "obs (snd (testSecret E token w)) = obs w"
proof (cases "getSecretValue E (secretsmanager_name E) (Some token) w")
  case (Pair r w1)
  have w1: "obs w1 = obs w"
    using assms(1) [of "secretsmanager_name E" "Some token" w] Pair by simp
  show ?thesis
    using Pair w1 getConnection_obs [of obs E, OF assms(2)]
    by (simp add: testSecret_def split: sum.splits)
qed

lemma testSecret_repeated_obs:
  assumes "\<And>i v w. obs (snd (getSecretValue E i v w)) = obs w"
    and "\<And>c w. obs (snd (createConnection E c w)) = obs w"
  shows "obs (repeated (testSecret E token) k w) = obs w"
proof (induction k)
  case 0
  show ?case by (simp add: repeated_def)
next
  case (Suc k)
  have "obs (repeated (testSecret E token) (Suc k) w)
      = obs (snd (testSecret E token (repeated (testSecret E token) k w)))"
    by (simp add: repeated_def)
  also have "\<dots> = obs (repeated (testSecret E token) k w)"
    by (rule testSecret_obs [of obs E, OF assms])
  finally show ?case using Suc.IH by simp
qed

lemma testSecret_reads:
  "list_all (\<lambda>c. \<not> mutating c) (calls (\<lambda>E. testSecret E token) E w)"
  by (simp add: calls_def testSecret_def getConnection_def traced_def logged_def
      split: prod.splits sum.splits)

subsection \<open>Labels in the store\<close>

lemma single_key:
  "distinct (map fst vs) \<Longrightarrow> k \<in> fst ` set vs \<Longrightarrow> map fst (filter (\<lambda>p. fst p = k) vs) = [k]"
proof (induction vs)
  case Nil
  then show ?case by simp
next
  case (Cons p vs)
  show ?case
  proof (cases "fst p = k")
    case True
    then have "k \<notin> fst ` set vs" using Cons.prems(1) by auto
    then have "filter (\<lambda>p. fst p = k) vs = []" by (auto simp: filter_empty_conv)
    with True show ?thesis by simp
  next
    case False
    with Cons show ?thesis by auto
  qed
qed

lemma holders_map:
  "(\<And>p. fst (f p) = fst p) \<Longrightarrow>
   holders l (w\<lparr>versions := map f (versions w)\<rparr>) =
   map fst (filter (\<lambda>p. labelled l (f p)) (versions w))"
  by (simp add: holders_def filter_map o_def)

lemma holder_in: "p \<in> set (versions w) \<Longrightarrow> labelled l p \<Longrightarrow> fst p \<in> set (holders l w)"
  by (auto simp: holders_def)

lemma holders_keys: "v \<in> set (holders l w) \<Longrightarrow> v \<in> fst ` set (versions w)"
  by (auto simp: holders_def)

lemma holder_label:
  "distinct (map fst (versions w)) \<Longrightarrow> v \<in> set (holders l w) \<Longrightarrow>
   \<exists>r. map_of (versions w) v = Some r \<and> label r = Some l"
  by (auto simp: holders_def labelled_def)

lemma relabel_current:
  assumes "distinct (map fst (versions w))" and "holders ''AWSCURRENT'' w = [cur]"
    and "token \<in> fst ` set (versions w)" and "cur \<noteq> token"
  shows "holders ''AWSCURRENT''
           (w\<lparr>versions := map (relabel ''AWSCURRENT'' (Some cur) token) (versions w)\<rparr>) = [token]"
proof -
  have "\<And>p. p \<in> set (versions w) \<Longrightarrow>
      labelled ''AWSCURRENT'' (relabel ''AWSCURRENT'' (Some cur) token p) \<longleftrightarrow> fst p = token"
    using holder_in [of _ w "''AWSCURRENT''"] assms(2,4)
    by (auto simp: labelled_def relabel_def moved_def)
  then have "filter (\<lambda>p. labelled ''AWSCURRENT'' (relabel ''AWSCURRENT'' (Some cur) token p))
        (versions w) = filter (\<lambda>p. fst p = token) (versions w)"
    by (auto intro: filter_cong)
  then show ?thesis
    using single_key [OF assms(1,3)] by (simp add: holders_map relabel_def)
qed

lemma relabel_previous:
  assumes "distinct (map fst (versions w))" and "cur \<in> fst ` set (versions w)"
    and "cur \<noteq> token"
  shows "holders ''AWSPREVIOUS''
           (w\<lparr>versions := map (relabel ''AWSCURRENT'' (Some cur) token) (versions w)\<rparr>) = [cur]"
proof -
  have "\<And>p. labelled ''AWSPREVIOUS'' (relabel ''AWSCURRENT'' (Some cur) token p)
      \<longleftrightarrow> fst p = cur"
    using assms(3) by (auto simp: labelled_def relabel_def moved_def)
  then show ?thesis
    using single_key [OF assms(1,2)] by (simp add: holders_map relabel_def)
qed

lemma relabel_pending:
  assumes "holders ''AWSPENDING'' w = [token]"
  shows "holders ''AWSPENDING''
           (w\<lparr>versions := map (relabel ''AWSCURRENT'' (Some cur) token) (versions w)\<rparr>) = []"
proof -
  have "\<And>p. p \<in> set (versions w) \<Longrightarrow>
      \<not> labelled ''AWSPENDING'' (relabel ''AWSCURRENT'' (Some cur) token p)"
    using holder_in [of _ w "''AWSPENDING''"] assms
    by (auto simp: labelled_def relabel_def moved_def)
  then show ?thesis
    by (simp add: holders_map relabel_def filter_empty_conv)
qed

subsection \<open>The loop of \<^verbatim>\<open>finishSecret\<close>\<close>

lemma loop_none:
  "curretVersion_loop m c = None \<longleftrightarrow>
   c = None \<and> list_all (\<lambda>p. case snd p of [] \<Rightarrow> True | s # ss \<Rightarrow> s \<noteq> ''AWSCURRENT'') m"
  by (induction m c rule: curretVersion_loop.induct) (auto split: list.splits)

lemma listed_pair: "listed (k, r) = (k, case label r of None \<Rightarrow> [] | Some l \<Rightarrow> [l])"
  by (simp add: listed_def)

lemma loop_no_current:
  "filter (labelled ''AWSCURRENT'') vs = [] \<Longrightarrow>
   curretVersion_loop (map listed (filter (\<lambda>p. label (snd p) \<noteq> None) vs)) c = c"
  by (induction vs arbitrary: c) (auto simp: listed_pair labelled_def split: if_splits)

lemma loop_one_current:
  "map fst (filter (labelled ''AWSCURRENT'') vs) = [cur] \<Longrightarrow>
   curretVersion_loop (map listed (filter (\<lambda>p. label (snd p) \<noteq> None) vs)) c = Some cur"
proof (induction vs arbitrary: c)
  case Nil
  then show ?case by simp
next
  case (Cons p vs)
  show ?case
  proof (cases "labelled ''AWSCURRENT'' p")
    case True
    then have rest: "filter (labelled ''AWSCURRENT'') vs = []" and p: "fst p = cur"
      using Cons.prems by auto
    show ?thesis
      using True p loop_no_current [OF rest, of "Some cur"]
      by (cases p) (auto simp: listed_pair labelled_def)
  next
    case False
    then have "map fst (filter (labelled ''AWSCURRENT'') vs) = [cur]"
      using Cons.prems by simp
    from Cons.IH [OF this] show ?thesis
      using False by (cases p) (auto simp: listed_pair labelled_def)
  qed
qed

subsection \<open>\<^verbatim>\<open>finishSecret\<close> on the store\<close>

text \<open>
  On the store, with one current version and the token's version pending,
  \<^verbatim>\<open>finishSecret\<close> succeeds with one label move; a failed \<^verbatim>\<open>finishSecret\<close>, and
  in particular one for a token without a version, leaves the world as it was.
\<close>

lemma finishSecret_on_store:
  assumes "secret w = n" and "distinct (map fst (versions w))"
    and "holders ''AWSCURRENT'' w = [cur]" and "holders ''AWSPENDING'' w = [token]"
  shows "cur \<noteq> token"
    and "store_updateSecretVersionStage n ''AWSCURRENT'' token (Some cur) w =
           (Inr (), w\<lparr>versions := map (relabel ''AWSCURRENT'' (Some cur) token) (versions w)\<rparr>)"
    and "finishSecret (services n) token w =
           (Inr (), w\<lparr>versions := map (relabel ''AWSCURRENT'' (Some cur) token) (versions w)\<rparr>)"
    and "calls (\<lambda>E. finishSecret E token) (services n) w
           = [DescribeSecret n, UpdateSecretVersionStage n ''AWSCURRENT'' token (Some cur),
              DescribeSecret n]"
proof -
  obtain rc where rc: "map_of (versions w) cur = Some rc" "label rc = Some ''AWSCURRENT''"
    using holder_label [OF assms(2), of cur "''AWSCURRENT''"] assms(3) by auto
  obtain rt where rt: "map_of (versions w) token = Some rt" "label rt = Some ''AWSPENDING''"
    using holder_label [OF assms(2), of token "''AWSPENDING''"] assms(4) by auto
  show ne: "cur \<noteq> token"
    using rc rt by auto
  have loop: "curretVersion_loop
      (map listed (filter (\<lambda>p. label (snd p) \<noteq> None) (versions w))) None = Some cur"
    using assms(3) unfolding holders_def by (rule loop_one_current)
  show upd: "store_updateSecretVersionStage n ''AWSCURRENT'' token (Some cur) w =
      (Inr (), w\<lparr>versions := map (relabel ''AWSCURRENT'' (Some cur) token) (versions w)\<rparr>)"
    using assms(1,3) rt ne by (simp add: store_updateSecretVersionStage_def)
  show "finishSecret (services n) token w =
      (Inr (), w\<lparr>versions := map (relabel ''AWSCURRENT'' (Some cur) token) (versions w)\<rparr>)"
    using assms(1) loop upd
    by (simp add: finishSecret_def Let_def services_def store_describeSecret_def)
  show "calls (\<lambda>E. finishSecret E token) (services n) w
      = [DescribeSecret n, UpdateSecretVersionStage n ''AWSCURRENT'' token (Some cur),
         DescribeSecret n]"
    using assms(1) loop upd
    by (simp add: calls_def finishSecret_def Let_def traced_def logged_def services_def
        store_describeSecret_def)
qed

lemma finishSecret_missing:
  "secret w = n \<Longrightarrow> map_of (versions w) token = None \<Longrightarrow>
   finishSecret (services n) token w = (Inl not_found, w)"
  by (simp add: finishSecret_def store_defs Let_def)

lemma finishSecret_failed:
  "fst (finishSecret (services n) token w) = Inl e \<Longrightarrow>
   snd (finishSecret (services n) token w) = w"
  by (auto simp: finishSecret_def store_defs Let_def split: option.splits if_splits)

lemma finishSecret_attempts:
  "describeSecret E (secretsmanager_name E) w = (Inr (Some m), w1) \<Longrightarrow>
   UpdateSecretVersionStage (secretsmanager_name E) ''AWSCURRENT'' token
     (curretVersion_loop m None) \<in> set (calls (\<lambda>E. finishSecret E token) E w)"
  by (simp add: calls_def finishSecret_def traced_def logged_def Let_def
      split: prod.splits sum.splits option.splits)

subsection \<open>\<^verbatim>\<open>createSecret\<close> on the store\<close>

text \<open>
  On the store, in a state with a current version: for a token without a version,
  \<^verbatim>\<open>createSecret\<close> appends the token's version as the only pending one; for a
  token that has a version it only reads. No invocation changes the content of a
  version that exists.
\<close>

lemma find_without:
  "l' \<noteq> l \<Longrightarrow>
   find (labelled l) (map (without l') vs) = map_option (without l') (find (labelled l) vs)"
  by (induction vs) (auto simp: labelled_def without_def)

lemma map_of_without:
  "map_of (map (without l) vs) k =
   map_option (\<lambda>r. if label r = Some l then r\<lparr>label := None\<rparr> else r) (map_of vs k)"
  by (induction vs) (auto simp: without_def)

lemma none_labelled_without: "filter (labelled l) (map (without l) vs) = []"
  by (induction vs) (auto simp: labelled_def without_def)

lemma content_without: "content (snd (without l p)) = content (snd p)"
  by (simp add: without_def)

lemma find_first_part: "find P xs = Some x \<Longrightarrow> find P (xs @ ys) = Some x"
  by (induction xs) (auto split: if_splits)

lemma get_property_set_property:
  "set_property j k v = Inr j' \<Longrightarrow> \<exists>x. get_property j k' = Inr x"
  by (cases j) auto

lemma createSecret_fresh:
  assumes "secret w = n" and "find (labelled ''AWSCURRENT'') (versions w) = Some p0"
    and "content (snd p0) = Text j"
    and "set_property j ''password'' (JStr (filter (\<lambda>c. c \<notin> set ExcludeCharacters) p)) = Inr j'"
    and "map_of (versions w) token = None" and "entropy w = p # ps"
  shows "createSecret (services n) token w =
    (Inr (Some ()),
     w\<lparr>entropy := ps,
       versions := map (without ''AWSPENDING'') (versions w)
                   @ [(token, \<lparr>content = Text j', label = Some ''AWSPENDING''\<rparr>)]\<rparr>)"
  using assms get_property_set_property [OF assms(4), of "''password''"]
  by (auto simp: createSecret_def store_defs first_label_def JSON_parse_def JSON_stringify_def
      not_found_def)

lemma createSecret_fresh_calls:
  assumes "secret w = n" and "find (labelled ''AWSCURRENT'') (versions w) = Some p0"
    and "content (snd p0) = Text j"
    and "set_property j ''password'' (JStr (filter (\<lambda>c. c \<notin> set ExcludeCharacters) p)) = Inr j'"
    and "map_of (versions w) token = None" and "entropy w = p # ps"
  shows "filter mutating (calls (\<lambda>E. createSecret E token) (services n) w)
    = [PutSecretValue n token (Text j') [''AWSPENDING'']]"
  using assms get_property_set_property [OF assms(4), of "''password''"]
  by (auto simp: calls_def traced_def logged_def createSecret_def Let_def store_defs
      first_label_def JSON_parse_def JSON_stringify_def not_found_def)

lemma createSecret_existing:
  assumes "secret w = n" and "find (labelled ''AWSCURRENT'') (versions w) = Some p0"
    and "content (snd p0) = Text j" and "j \<noteq> JNull"
    and "map_of (versions w) token = Some r"
  shows "createSecret (services n) token w = (Inr None, w)"
    and "calls (\<lambda>E. createSecret E token) (services n) w
      = [GetSecretValue n None, DescribeSecret n, GetSecretValue n (Some token)]"
  using assms
  by (cases j; simp add: calls_def traced_def logged_def createSecret_def Let_def store_defs
      JSON_parse_def)+

lemma createSecret_contents:
  "map_of (versions w) v = Some r \<Longrightarrow>
   \<exists>r'. map_of (versions (snd (createSecret (services n) token w))) v = Some r'
        \<and> content r' = content r"
  by (auto simp: createSecret_def store_defs Let_def map_of_without map_add_def
      split: option.splits sum.splits prod.splits if_splits list.splits)

subsection \<open>Proper documents\<close>

lemma proper_values_update:
  "list_all (\<lambda>p. snd p) (map (map_prod id proper) kvs) \<Longrightarrow> proper v \<Longrightarrow>
   list_all (\<lambda>p. snd p) (map (map_prod id proper) (AList.update k v kvs))"
  by (induction kvs) auto

lemma proper_update:
  "proper (JObj kvs) \<Longrightarrow> proper v \<Longrightarrow> proper (JObj (AList.update k v kvs))"
  by (simp add: distinct_update proper_values_update)

section \<open>The claims\<close>

subsection \<open>C1: a failed authentication in \<^verbatim>\<open>testSecret\<close>\<close>

text \<open>
  C1 says that \<^verbatim>\<open>testSecret\<close> fails when authenticating with the pending
  credential does not succeed. The code does not: whatever the services answer,
  \<^verbatim>\<open>testSecret\<close> is fulfilled. The outcome of \<^verbatim>\<open>getConnection\<close>
  (\<^verbatim>\<open>null\<close> after a failed connection) is dropped, and every exception of the body
  is caught and logged.
\<close>

theorem testSecret_never_rejected: "fst (testSecret E token w) = Inr ()"
  by (simp add: testSecret_def split: prod.splits sum.splits)

theorem testSecret_never_rejected_witness:
  "fst (target_createConnection
          \<lparr> host = Some (JStr ''h''), user = Some (JStr ''app''),
            password = Some (JStr ''new1''), port = Some (JNum (number 3306)),
            connect_timeout = 5 \<rparr> world_pending)
     = Inl (ServiceError ''ER_ACCESS_DENIED_ERROR'')
   \<and> calls (\<lambda>E. testSecret E ''t2'') svc world_pending
     = [GetSecretValue ''db-cred'' (Some ''t2''),
        CreateConnection
          \<lparr> host = Some (JStr ''h''), user = Some (JStr ''app''),
            password = Some (JStr ''new1''), port = Some (JNum (number 3306)),
            connect_timeout = 5 \<rparr>]
   \<and> fst (testSecret svc ''t2'' world_pending) = Inr ()"
  using testSecret_never_rejected [of "services ''db-cred''" "''t2''" world_pending]
  by (simp add: calls_def testSecret_def getConnection_def traced_def logged_def
      store_defs world_defs JSON_parse_def)

subsection \<open>C2: the labels after \<^verbatim>\<open>finishSecret\<close>\<close>

text \<open>
  C2: in every state of the store in which one version, \<open>cur\<close>, holds
  \<^verbatim>\<open>AWSCURRENT\<close> and the token's version is the one that holds \<^verbatim>\<open>AWSPENDING\<close>,
  \<^verbatim>\<open>finishSecret\<close> succeeds, and afterwards exactly one version holds
  \<^verbatim>\<open>AWSCURRENT\<close>, the token's; \<open>cur\<close> holds \<^verbatim>\<open>AWSPREVIOUS\<close>; no version holds
  \<^verbatim>\<open>AWSPENDING\<close>; no content has changed. The store went from the state before to the
  state after in one request, the only one of the three calls that changes anything, so
  no state with two current versions lies between.
\<close>

theorem finishSecret_promotes:
  assumes "secret w = n" and "distinct (map fst (versions w))"
    and "holders ''AWSCURRENT'' w = [cur]" and "holders ''AWSPENDING'' w = [token]"
  shows "\<exists>w'. finishSecret (services n) token w = (Inr (), w')
           \<and> holders ''AWSCURRENT'' w' = [token]
           \<and> holders ''AWSPREVIOUS'' w' = [cur]
           \<and> holders ''AWSPENDING'' w' = []
           \<and> map (\<lambda>p. (fst p, content (snd p))) (versions w')
               = map (\<lambda>p. (fst p, content (snd p))) (versions w)
           \<and> store_updateSecretVersionStage n ''AWSCURRENT'' token (Some cur) w = (Inr (), w')
           \<and> calls (\<lambda>E. finishSecret E token) (services n) w
               = [DescribeSecret n, UpdateSecretVersionStage n ''AWSCURRENT'' token (Some cur),
                  DescribeSecret n]"
proof -
  note store = finishSecret_on_store [OF assms]
  have tok: "token \<in> fst ` set (versions w)"
    using holders_keys [of token "''AWSPENDING''" w] assms(4) by simp
  have cur: "cur \<in> fst ` set (versions w)"
    using holders_keys [of cur "''AWSCURRENT''" w] assms(3) by simp
  have same: "map (\<lambda>p. (fst p, content (snd p)))
        (map (relabel ''AWSCURRENT'' (Some cur) token) (versions w))
      = map (\<lambda>p. (fst p, content (snd p))) (versions w)"
    by (simp add: relabel_def o_def)
  show ?thesis
    using store(2,3,4) relabel_current [OF assms(2,3) tok store(1)]
      relabel_previous [OF assms(2) cur store(1)] relabel_pending [OF assms(4), of cur] same
    by simp
qed

theorem finishSecret_promotes_witness:
  "secret world_pending = ''db-cred''
   \<and> distinct (map fst (versions world_pending))
   \<and> holders ''AWSCURRENT'' world_pending = [''v1'']
   \<and> holders ''AWSPENDING'' world_pending = [''t2'']
   \<and> finishSecret svc ''t2'' world_pending = (Inr (), world_finished)
   \<and> holders ''AWSCURRENT'' world_finished = [''t2'']
   \<and> holders ''AWSPREVIOUS'' world_finished = [''v1'']
   \<and> holders ''AWSPENDING'' world_finished = []"
proof -
  have a: "secret world_pending = ''db-cred''"
    by (simp add: world_defs)
  have b: "distinct (map fst (versions world_pending))"
    by (simp add: world_defs)
  have c: "holders ''AWSCURRENT'' world_pending = [''v1'']"
    by (simp add: world_defs label_defs)
  have d: "holders ''AWSPENDING'' world_pending = [''t2'']"
    by (simp add: world_defs label_defs)
  have e: "finishSecret svc ''t2'' world_pending = (Inr (), world_finished)"
    by (simp add: finishSecret_def Let_def store_defs world_defs label_defs)
  show ?thesis
    using finishSecret_promotes [OF a b c d] a b c d e by auto
qed

subsection \<open>C3: \<^verbatim>\<open>createSecret\<close> twice with the same token\<close>

text \<open>
  C3 as stated fails for a token that already has a version which is not pending: once
  the rotation for \<^verbatim>\<open>t2\<close> is finished, the version \<^verbatim>\<open>t2\<close> is the current one;
  \<^verbatim>\<open>createSecret\<close> for \<^verbatim>\<open>t2\<close> finds it and does nothing, so after two invocations
  no version is pending.
\<close>

theorem createSecret_idempotent_counterexample:
  "holders ''AWSCURRENT'' world_finished = [''t2'']
   \<and> createSecret svc ''t2'' world_finished = (Inr None, world_finished)
   \<and> repeated (createSecret svc ''t2'') 2 world_finished = world_finished
   \<and> holders ''AWSPENDING'' world_finished = []"
  by (simp add: repeated_def numeral_2_eq_2 createSecret_def Let_def store_defs world_defs
      label_defs JSON_parse_def)

text \<open>
  C3, amended: in every state of the store with a current version whose content is JSON
  other than \<^verbatim>\<open>null\<close>: when the store has no version for the token and the generator
  has a password left, \<^verbatim>\<open>createSecret\<close> writes the token's version with the label
  \<^verbatim>\<open>AWSPENDING\<close>, which is then the only pending version, by its only request that
  changes the store; a second invocation with the same token returns without a value,
  leaves the world as the first left it and sends no request that changes the store. When
  the token has a version, whatever its label, \<^verbatim>\<open>createSecret\<close> leaves the world as
  it is and sends no request that changes the store.
\<close>

theorem createSecret_idempotent:
  assumes "secret w = n" and "find (labelled ''AWSCURRENT'') (versions w) = Some p0"
    and "content (snd p0) = Text j" and "j \<noteq> JNull"
  shows "(map_of (versions w) token = None \<longrightarrow> entropy w \<noteq> [] \<longrightarrow>
           (\<exists>c w1. createSecret (services n) token w = (Inr (Some ()), w1)
              \<and> map_of (versions w1) token = Some \<lparr>content = c, label = Some ''AWSPENDING''\<rparr>
              \<and> holders ''AWSPENDING'' w1 = [token]
              \<and> filter mutating (calls (\<lambda>E. createSecret E token) (services n) w)
                  = [PutSecretValue n token c [''AWSPENDING'']]
              \<and> createSecret (services n) token w1 = (Inr None, w1)
              \<and> filter mutating (calls (\<lambda>E. createSecret E token) (services n) w1) = []))
       \<and> (\<forall>r. map_of (versions w) token = Some r \<longrightarrow>
             createSecret (services n) token w = (Inr None, w)
             \<and> filter mutating (calls (\<lambda>E. createSecret E token) (services n) w) = [])"
proof (intro conjI impI allI)
  assume none: "map_of (versions w) token = None" and e: "entropy w \<noteq> []"
  obtain p ps where ps: "entropy w = p # ps"
    using e by (cases "entropy w") auto
  obtain j' where j': "set_property j ''password''
      (JStr (filter (\<lambda>c. c \<notin> set ExcludeCharacters) p)) = Inr j'"
    using assms(4) by (cases j) auto
  define w1 where "w1 = w\<lparr>entropy := ps,
      versions := map (without ''AWSPENDING'') (versions w)
        @ [(token, \<lparr>content = Text j', label = Some ''AWSPENDING''\<rparr>)]\<rparr>"
  have first: "createSecret (services n) token w = (Inr (Some ()), w1)"
    unfolding w1_def by (rule createSecret_fresh [OF assms(1,2,3) j' none ps])
  have put: "filter mutating (calls (\<lambda>E. createSecret E token) (services n) w)
      = [PutSecretValue n token (Text j') [''AWSPENDING'']]"
    by (rule createSecret_fresh_calls [OF assms(1,2,3) j' none ps])
  have n1: "secret w1 = n"
    using assms(1) by (simp add: w1_def)
  have cur1: "find (labelled ''AWSCURRENT'') (versions w1) = Some (without ''AWSPENDING'' p0)"
    using assms(2) by (simp add: w1_def find_first_part find_without)
  have c1: "content (snd (without ''AWSPENDING'' p0)) = Text j"
    using assms(3) by (simp add: content_without)
  have tok1: "map_of (versions w1) token
      = Some \<lparr>content = Text j', label = Some ''AWSPENDING''\<rparr>"
    using none by (simp add: w1_def map_add_def map_of_without)
  have pend: "holders ''AWSPENDING'' w1 = [token]"
    by (simp add: w1_def holders_def none_labelled_without) (simp add: labelled_def)
  note second = createSecret_existing [OF n1 cur1 c1 assms(4) tok1]
  show "\<exists>c w1. createSecret (services n) token w = (Inr (Some ()), w1)
      \<and> map_of (versions w1) token = Some \<lparr>content = c, label = Some ''AWSPENDING''\<rparr>
      \<and> holders ''AWSPENDING'' w1 = [token]
      \<and> filter mutating (calls (\<lambda>E. createSecret E token) (services n) w)
          = [PutSecretValue n token c [''AWSPENDING'']]
      \<and> createSecret (services n) token w1 = (Inr None, w1)
      \<and> filter mutating (calls (\<lambda>E. createSecret E token) (services n) w1) = []"
    using first tok1 pend put second by auto
next
  fix r
  assume "map_of (versions w) token = Some r"
  note existing = createSecret_existing [OF assms this]
  show "createSecret (services n) token w = (Inr None, w)"
    by (rule existing(1))
  show "filter mutating (calls (\<lambda>E. createSecret E token) (services n) w) = []"
    by (simp add: existing(2))
qed

theorem createSecret_idempotent_witness:
  "secret world_start = ''db-cred''
   \<and> find (labelled ''AWSCURRENT'') (versions world_start)
       = Some (''v1'', \<lparr>content = Text payload_old, label = Some ''AWSCURRENT''\<rparr>)
   \<and> payload_old \<noteq> JNull
   \<and> map_of (versions world_start) ''t2'' = None
   \<and> entropy world_start \<noteq> []
   \<and> createSecret svc ''t2'' world_start = (Inr (Some ()), world_pending)
   \<and> map_of (versions world_pending) ''t2''
       = Some \<lparr>content = Text payload_new, label = Some ''AWSPENDING''\<rparr>
   \<and> holders ''AWSPENDING'' world_pending = [''t2'']
   \<and> createSecret svc ''t2'' world_pending = (Inr None, world_pending)"
proof -
  have a: "secret world_start = ''db-cred''"
    by (simp add: world_defs)
  have b: "find (labelled ''AWSCURRENT'') (versions world_start)
       = Some (''v1'', \<lparr>content = Text payload_old, label = Some ''AWSCURRENT''\<rparr>)"
    by (simp add: world_defs labelled_def)
  have c: "content (snd (''v1'', \<lparr>content = Text payload_old, label = Some ''AWSCURRENT''\<rparr>))
       = Text payload_old"
    by simp
  have d: "payload_old \<noteq> JNull"
    by (simp add: payload_old_def)
  have e: "map_of (versions world_start) ''t2'' = None"
    by (simp add: world_defs)
  have f: "entropy world_start \<noteq> []"
    by (simp add: world_defs)
  have g: "createSecret svc ''t2'' world_start = (Inr (Some ()), world_pending)"
    by (simp add: createSecret_def Let_def store_defs world_defs label_defs JSON_parse_def
        JSON_stringify_def ExcludeCharacters_def)
  have h: "map_of (versions world_pending) ''t2''
       = Some \<lparr>content = Text payload_new, label = Some ''AWSPENDING''\<rparr>"
    by (simp add: world_defs)
  have i: "holders ''AWSPENDING'' world_pending = [''t2'']"
    by (simp add: world_defs label_defs)
  show ?thesis
    using createSecret_idempotent [OF a b c d, of "''t2''"] a b d e f g h i by auto
qed

subsection \<open>C4: \<^verbatim>\<open>finishSecret\<close> without a current or a pending version\<close>

text \<open>
  C4 as stated fails: \<^verbatim>\<open>finishSecret\<close> checks no label before it asks for the move.
  Here no version is pending and the token \<^verbatim>\<open>v0\<close> names the version that holds
  \<^verbatim>\<open>AWSPREVIOUS\<close>; the request is sent, the store accepts it, the step succeeds and
  \<^verbatim>\<open>AWSCURRENT\<close> has moved to \<^verbatim>\<open>v0\<close>.
\<close>

theorem finishSecret_unguarded_counterexample:
  "holders ''AWSCURRENT'' world_previous = [''v1'']
   \<and> holders ''AWSPENDING'' world_previous = []
   \<and> calls (\<lambda>E. finishSecret E ''v0'') svc world_previous
       = [DescribeSecret ''db-cred'',
          UpdateSecretVersionStage ''db-cred'' ''AWSCURRENT'' ''v0'' (Some ''v1''),
          DescribeSecret ''db-cred'']
   \<and> fst (finishSecret svc ''v0'' world_previous) = Inr ()
   \<and> holders ''AWSCURRENT'' (snd (finishSecret svc ''v0'' world_previous)) = [''v0'']"
  by (simp add: calls_def finishSecret_def Let_def traced_def logged_def store_defs
      world_defs label_defs)

text \<open>
  C4, amended: when \<^verbatim>\<open>describeSecret\<close> is answered with a map of versions to
  stages, \<^verbatim>\<open>finishSecret\<close> asks the store to move \<^verbatim>\<open>AWSCURRENT\<close> to the token's
  version, whatever the map lists; when the store rejects that request, the step fails
  with the store's error and the request is the only one it has sent that changes
  anything. When \<^verbatim>\<open>describeSecret\<close> is answered without such a map, the step fails
  with a \<^verbatim>\<open>TypeError\<close> and has sent nothing but that \<^verbatim>\<open>describeSecret\<close>.
\<close>

theorem finishSecret_unguarded:
  assumes "describeSecret E (secretsmanager_name E) w = (Inr d, w1)"
  shows "(d = None \<longrightarrow>
            finishSecret E token w = (Inl TypeError, w1)
            \<and> calls (\<lambda>E. finishSecret E token) E w = [DescribeSecret (secretsmanager_name E)])
       \<and> (\<forall>m. d = Some m \<longrightarrow>
            UpdateSecretVersionStage (secretsmanager_name E) ''AWSCURRENT'' token
              (curretVersion_loop m None) \<in> set (calls (\<lambda>E. finishSecret E token) E w)
            \<and> (\<forall>e w2. updateSecretVersionStage E (secretsmanager_name E) ''AWSCURRENT'' token
                         (curretVersion_loop m None) w1 = (Inl e, w2) \<longrightarrow>
                 finishSecret E token w = (Inl e, w2)
                 \<and> filter mutating (calls (\<lambda>E. finishSecret E token) E w)
                     = [UpdateSecretVersionStage (secretsmanager_name E) ''AWSCURRENT'' token
                          (curretVersion_loop m None)]))"
proof (cases d)
  case None
  then show ?thesis
    using assms by (simp add: calls_def finishSecret_def traced_def logged_def)
next
  case (Some m)
  have "describeSecret E (secretsmanager_name E) w = (Inr (Some m), w1)"
    using assms Some by simp
  from this finishSecret_attempts [OF this, of token] show ?thesis
    using Some by (auto simp: calls_def finishSecret_def traced_def logged_def Let_def)
qed

theorem finishSecret_unguarded_witness:
  "describeSecret svc (secretsmanager_name svc) world_start
       = (Inr (Some [(''v1'', [''AWSCURRENT''])]), world_start)
   \<and> updateSecretVersionStage svc (secretsmanager_name svc) ''AWSCURRENT'' ''t2''
        (curretVersion_loop [(''v1'', [''AWSCURRENT''])] None) world_start
       = (Inl not_found, world_start)
   \<and> finishSecret svc ''t2'' world_start = (Inl not_found, world_start)
   \<and> filter mutating (calls (\<lambda>E. finishSecret E ''t2'') svc world_start)
       = [UpdateSecretVersionStage ''db-cred'' ''AWSCURRENT'' ''t2'' (Some ''v1'')]
   \<and> describeSecret svc_unlisted (secretsmanager_name svc_unlisted) world_pending
       = (Inr None, world_pending)
   \<and> finishSecret svc_unlisted ''t2'' world_pending = (Inl TypeError, world_pending)
   \<and> calls (\<lambda>E. finishSecret E ''t2'') svc_unlisted world_pending = [DescribeSecret ''db-cred'']"
proof -
  have a: "describeSecret svc (secretsmanager_name svc) world_start
       = (Inr (Some [(''v1'', [''AWSCURRENT''])]), world_start)"
    by (simp add: store_defs world_defs label_defs)
  have b: "updateSecretVersionStage svc (secretsmanager_name svc) ''AWSCURRENT'' ''t2''
        (curretVersion_loop [(''v1'', [''AWSCURRENT''])] None) world_start
       = (Inl not_found, world_start)"
    by (simp add: store_defs world_defs)
  have c: "describeSecret svc_unlisted (secretsmanager_name svc_unlisted) world_pending
       = (Inr None, world_pending)"
    by (simp add: svc_unlisted_def)
  have n: "secretsmanager_name svc = ''db-cred''" "secretsmanager_name svc_unlisted = ''db-cred''"
    "curretVersion_loop [(''v1'', [''AWSCURRENT''])] None = Some ''v1''"
    by (simp_all add: svc_unlisted_def services_def)
  show ?thesis
    using finishSecret_unguarded [OF a, of "''t2''"] finishSecret_unguarded [OF c, of "''t2''"]
      a b c
    by (simp add: n)
qed

subsection \<open>C5: \<^verbatim>\<open>createSecret\<close> while another token is pending\<close>

text \<open>
  C5 as stated fails: with \<^verbatim>\<open>t2\<close> pending, \<^verbatim>\<open>createSecret\<close> for the token
  \<^verbatim>\<open>t3\<close> is not rejected. It puts the version \<^verbatim>\<open>t3\<close> with the stage
  \<^verbatim>\<open>AWSPENDING\<close>, and in the store the label leaves \<^verbatim>\<open>t2\<close>.
\<close>

theorem createSecret_conflict_counterexample:
  "holders ''AWSPENDING'' world_pending = [''t2'']
   \<and> fst (createSecret svc ''t3'' world_pending) = Inr (Some ())
   \<and> calls (\<lambda>E. createSecret E ''t3'') svc world_pending
       = [GetSecretValue ''db-cred'' None, DescribeSecret ''db-cred'',
          GetSecretValue ''db-cred'' (Some ''t3''), GetRandomPassword ExcludeCharacters,
          PutSecretValue ''db-cred'' ''t3''
            (Text (JObj [(''username'', JStr ''app''), (''password'', JStr ''new2''),
                         (''host'', JStr ''h''), (''port'', JNum (number 3306))]))
            [''AWSPENDING'']]
   \<and> holders ''AWSPENDING'' (snd (createSecret svc ''t3'' world_pending)) = [''t3'']"
  by (simp add: calls_def createSecret_def Let_def traced_def logged_def store_defs world_defs
      label_defs JSON_parse_def JSON_stringify_def ExcludeCharacters_def)

text \<open>
  C5, amended: \<^verbatim>\<open>createSecret\<close> does not look at the labels. When the current
  version is read as JSON other than \<^verbatim>\<open>null\<close>, the description lists another version
  as pending and the lookup of the token's version is rejected, the step goes on to the
  generator. If the generator returns a password, \<^verbatim>\<open>createSecret\<close> is fulfilled and
  the only request it sends that changes the store is the put of a version under the
  token's own id with the stage \<^verbatim>\<open>AWSPENDING\<close>, so it never writes under the id of
  the other version. If the generator is rejected, \<^verbatim>\<open>createSecret\<close> fails with the
  generator's error and sends no request that changes the store.
\<close>

theorem createSecret_no_conflict_check:
  assumes "getSecretValue E (secretsmanager_name E) None w = (Inr (Text j), w1)"
    and "j \<noteq> JNull"
    and "describeSecret E (secretsmanager_name E) w1 = (Inr (Some m), w2)"
    and "(other, ls) \<in> set m" and "''AWSPENDING'' \<in> set ls" and "other \<noteq> token"
    and "getSecretValue E (secretsmanager_name E) (Some token) w2 = (Inl err, w3)"
    and "getRandomPassword E ExcludeCharacters w3 = (g, w4)"
  shows "(\<forall>e. g = Inl e \<longrightarrow>
            createSecret E token w = (Inl e, w4)
            \<and> filter mutating (calls (\<lambda>E. createSecret E token) E w) = [])
       \<and> (\<forall>p. g = Inr p \<longrightarrow>
            (\<exists>r c. fst (createSecret E token w) = Inr r
               \<and> snd (createSecret E token w)
                   = snd (putSecretValue E (secretsmanager_name E) token c [''AWSPENDING''] w4)
               \<and> filter mutating (calls (\<lambda>E. createSecret E token) E w)
                   = [PutSecretValue (secretsmanager_name E) token c [''AWSPENDING'']]))"
proof (cases g)
  case (Inl e)
  obtain x where x: "get_property j ''password'' = Inr x"
    using assms(2) by (cases j) auto
  show ?thesis
    using assms(1,3,7,8) x Inl
    by (simp add: calls_def createSecret_def Let_def traced_def logged_def JSON_parse_def)
next
  case (Inr p)
  obtain x j' where x: "get_property j ''password'' = Inr x"
    and j': "set_property j ''password'' (JStr p) = Inr j'"
    using assms(2) by (cases j) auto
  show ?thesis
    using assms(1,3,7,8) x j' Inr
    by (auto simp: calls_def createSecret_def Let_def traced_def logged_def JSON_parse_def
        JSON_stringify_def split: prod.splits sum.splits)
qed

theorem createSecret_no_conflict_check_witness:
  "getSecretValue svc (secretsmanager_name svc) None world_pending
       = (Inr (Text payload_old), world_pending)
   \<and> payload_old \<noteq> JNull
   \<and> describeSecret svc (secretsmanager_name svc) world_pending
       = (Inr (Some [(''v1'', [''AWSCURRENT'']), (''t2'', [''AWSPENDING''])]), world_pending)
   \<and> (''t2'', [''AWSPENDING'']) \<in> set [(''v1'', [''AWSCURRENT'']), (''t2'', [''AWSPENDING''])]
   \<and> ''AWSPENDING'' \<in> set [''AWSPENDING''] \<and> ''t2'' \<noteq> ''t3''
   \<and> getSecretValue svc (secretsmanager_name svc) (Some ''t3'') world_pending
       = (Inl not_found, world_pending)
   \<and> getRandomPassword svc ExcludeCharacters world_pending
       = (Inr ''new2'', world_pending\<lparr>entropy := []\<rparr>)
   \<and> (\<exists>r c. fst (createSecret svc ''t3'' world_pending) = Inr r
          \<and> filter mutating (calls (\<lambda>E. createSecret E ''t3'') svc world_pending)
              = [PutSecretValue ''db-cred'' ''t3'' c [''AWSPENDING'']])
   \<and> getRandomPassword svc ExcludeCharacters world_exhausted
       = (Inl (ServiceError ''InternalServiceError''), world_exhausted)
   \<and> createSecret svc ''t3'' world_exhausted
       = (Inl (ServiceError ''InternalServiceError''), world_exhausted)
   \<and> filter mutating (calls (\<lambda>E. createSecret E ''t3'') svc world_exhausted) = []"
proof -
  have a: "getSecretValue svc (secretsmanager_name svc) None world_pending
       = (Inr (Text payload_old), world_pending)"
    by (simp add: store_defs world_defs labelled_def)
  have b: "payload_old \<noteq> JNull"
    by (simp add: payload_old_def)
  have c: "describeSecret svc (secretsmanager_name svc) world_pending
       = (Inr (Some [(''v1'', [''AWSCURRENT'']), (''t2'', [''AWSPENDING''])]), world_pending)"
    by (simp add: store_defs world_defs label_defs)
  have d: "(''t2'', [''AWSPENDING'']) \<in> set [(''v1'', [''AWSCURRENT'']), (''t2'', [''AWSPENDING''])]"
    by simp
  have e: "''AWSPENDING'' \<in> set [''AWSPENDING'']"
    by simp
  have f: "''t2'' \<noteq> ''t3''"
    by simp
  have g: "getSecretValue svc (secretsmanager_name svc) (Some ''t3'') world_pending
       = (Inl not_found, world_pending)"
    by (simp add: store_defs world_defs)
  have h: "getRandomPassword svc ExcludeCharacters world_pending
       = (Inr ''new2'', world_pending\<lparr>entropy := []\<rparr>)"
    by (simp add: store_defs world_defs ExcludeCharacters_def)
  have a': "getSecretValue svc (secretsmanager_name svc) None world_exhausted
       = (Inr (Text payload_old), world_exhausted)"
    by (simp add: store_defs world_defs labelled_def)
  have c': "describeSecret svc (secretsmanager_name svc) world_exhausted
       = (Inr (Some [(''v1'', [''AWSCURRENT'']), (''t2'', [''AWSPENDING''])]), world_exhausted)"
    by (simp add: store_defs world_defs label_defs)
  have g': "getSecretValue svc (secretsmanager_name svc) (Some ''t3'') world_exhausted
       = (Inl not_found, world_exhausted)"
    by (simp add: store_defs world_defs)
  have h': "getRandomPassword svc ExcludeCharacters world_exhausted
       = (Inl (ServiceError ''InternalServiceError''), world_exhausted)"
    by (simp add: store_defs world_defs)
  have n: "secretsmanager_name svc = ''db-cred''"
    by (simp add: services_def)
  obtain r x where r: "fst (createSecret svc ''t3'' world_pending) = Inr r"
    and x: "filter mutating (calls (\<lambda>E. createSecret E ''t3'') svc world_pending)
        = [PutSecretValue (secretsmanager_name svc) ''t3'' x [''AWSPENDING'']]"
    using createSecret_no_conflict_check [OF a b c d e f g h] by blast
  have y: "createSecret svc ''t3'' world_exhausted
       = (Inl (ServiceError ''InternalServiceError''), world_exhausted)
     \<and> filter mutating (calls (\<lambda>E. createSecret E ''t3'') svc world_exhausted) = []"
    using createSecret_no_conflict_check [OF a' b c' d e f g' h'] by blast
  show ?thesis
    using a b c d e f g h h' r x [unfolded n] y by blast
qed

subsection \<open>C6: a failed password change in \<^verbatim>\<open>setSecret\<close>\<close>

text \<open>
  C6 says that \<^verbatim>\<open>setSecret\<close> reports a failure to apply the password. The code does
  not: once the pending version has been read and parsed, \<^verbatim>\<open>setSecret\<close> is
  fulfilled although \<^verbatim>\<open>modifyDBCluster\<close> was rejected.
\<close>

theorem setSecret_drops_failure:
  assumes "getSecretValue E (secretsmanager_name E) (Some token) w = (Inr (Text j), w1)"
    and "get_property j ''password'' = Inr p"
    and "fst (modifyDBCluster E ''phat-cluster'' True p w1) = Inl e"
  shows "fst (setSecret E token w) = Inr ()"
  using assms by (simp add: setSecret_def JSON_parse_def Let_def)

theorem setSecret_drops_failure_witness:
  "getSecretValue svc (secretsmanager_name svc)
       (Some ''t2'') world_down = (Inr (Text payload_new), world_down)
   \<and> get_property payload_new ''password'' = Inr (Some (JStr ''new1''))
   \<and> fst (modifyDBCluster svc ''phat-cluster'' True (Some (JStr ''new1''))
            world_down) = Inl (ServiceError ''ServiceUnavailable'')
   \<and> fst (setSecret svc ''t2'' world_down) = Inr ()
   \<and> master_password (snd (setSecret svc ''t2'' world_down)) = ''old''"
proof -
  have a: "getSecretValue svc (secretsmanager_name svc)
       (Some ''t2'') world_down = (Inr (Text payload_new), world_down)"
    by (simp add: store_defs world_defs)
  have b: "get_property payload_new ''password'' = Inr (Some (JStr ''new1''))"
    by (simp add: payload_new_def)
  have c: "fst (modifyDBCluster svc ''phat-cluster'' True
       (Some (JStr ''new1'')) world_down) = Inl (ServiceError ''ServiceUnavailable'')"
    by (simp add: store_defs world_defs)
  have d: "master_password (snd (setSecret svc ''t2'' world_down)) = ''old''"
    by (simp add: setSecret_def store_defs world_defs JSON_parse_def)
  show ?thesis
    using setSecret_drops_failure [OF a b c] a b c d by simp
qed

subsection \<open>C7: the payload that \<^verbatim>\<open>createSecret\<close> writes\<close>

text \<open>
  C7 as stated fails on its last part: nothing compares the generated password with the
  current one. When the generator returns the current password, the version that
  \<^verbatim>\<open>createSecret\<close> puts has the very content of the current version.
\<close>

theorem createSecret_same_password_counterexample:
  "length password_32 = 32
   \<and> getSecretValue svc ''db-cred'' None world_same
       = (Inr (Text (JObj [(''username'', JStr ''app''), (''password'', JStr password_32),
                           (''host'', JStr ''h''), (''port'', JNum (number 3306))])), world_same)
   \<and> fst (getRandomPassword svc ExcludeCharacters world_same) = Inr password_32
   \<and> calls (\<lambda>E. createSecret E ''t2'') svc world_same
       = [GetSecretValue ''db-cred'' None, DescribeSecret ''db-cred'',
          GetSecretValue ''db-cred'' (Some ''t2''), GetRandomPassword ExcludeCharacters,
          PutSecretValue ''db-cred'' ''t2''
            (Text (JObj [(''username'', JStr ''app''), (''password'', JStr password_32),
                         (''host'', JStr ''h''), (''port'', JNum (number 3306))]))
            [''AWSPENDING'']]"
  by (simp add: calls_def createSecret_def Let_def traced_def logged_def store_defs world_defs
      label_defs JSON_parse_def JSON_stringify_def ExcludeCharacters_def)

text \<open>
  C7, amended: when the current version is read as an object with the properties
  \<open>kvs\<close> (its numbers safe integers), \<^verbatim>\<open>describeSecret\<close> is answered, the lookup
  of the token's version is rejected and \<^verbatim>\<open>getRandomPassword\<close> returns the string
  \<open>g\<close>, the version that \<^verbatim>\<open>createSecret\<close> asks the store to put for the token,
  with the stage \<^verbatim>\<open>AWSPENDING\<close>, is an object that has every property other than
  \<^verbatim>\<open>password\<close> as \<open>kvs\<close> has it, and whose \<^verbatim>\<open>password\<close> is \<open>g\<close>; it differs
  from the current password whenever \<open>g\<close> does.
\<close>

theorem createSecret_payload:
  assumes "getSecretValue E (secretsmanager_name E) None w = (Inr (Text (JObj kvs)), w1)"
    and "proper (JObj kvs)"
    and "describeSecret E (secretsmanager_name E) w1 = (Inr d, w2)"
    and "getSecretValue E (secretsmanager_name E) (Some token) w2 = (Inl err, w3)"
    and "getRandomPassword E ExcludeCharacters w3 = (Inr g, w4)"
  shows "\<exists>kvs'. calls (\<lambda>E. createSecret E token) E w
             = [GetSecretValue (secretsmanager_name E) None,
                DescribeSecret (secretsmanager_name E),
                GetSecretValue (secretsmanager_name E) (Some token),
                GetRandomPassword ExcludeCharacters,
                PutSecretValue (secretsmanager_name E) token (Text (JObj kvs'))
                  [''AWSPENDING'']]
           \<and> proper (JObj kvs')
           \<and> (\<forall>k. k \<noteq> ''password'' \<longrightarrow> map_of kvs' k = map_of kvs k)
           \<and> map_of kvs' ''password'' = Some (JStr g)
           \<and> (map_of kvs ''password'' \<noteq> Some (JStr g) \<longrightarrow>
                map_of kvs' ''password'' \<noteq> map_of kvs ''password'')"
proof -
  have "calls (\<lambda>E. createSecret E token) E w
      = [GetSecretValue (secretsmanager_name E) None,
         DescribeSecret (secretsmanager_name E),
         GetSecretValue (secretsmanager_name E) (Some token),
         GetRandomPassword ExcludeCharacters,
         PutSecretValue (secretsmanager_name E) token
           (Text (JObj (AList.update ''password'' (JStr g) kvs))) [''AWSPENDING'']]"
    using assms(1,3,4,5)
    by (auto simp: calls_def createSecret_def Let_def traced_def logged_def JSON_parse_def
        JSON_stringify_def split: prod.splits sum.splits)
  moreover have "proper (JObj (AList.update ''password'' (JStr g) kvs))"
    using proper_update [OF assms(2), of "JStr g" "''password''"] by simp
  ultimately show ?thesis
    by (auto simp: update_conv')
qed

theorem createSecret_payload_witness:
  "getSecretValue svc (secretsmanager_name svc) None world_start
       = (Inr (Text (JObj [(''username'', JStr ''app''), (''password'', JStr ''old''),
                           (''host'', JStr ''h''), (''port'', JNum (number 3306))])), world_start)
   \<and> proper (JObj [(''username'', JStr ''app''), (''password'', JStr ''old''),
                   (''host'', JStr ''h''), (''port'', JNum (number 3306))])
   \<and> describeSecret svc (secretsmanager_name svc) world_start
       = (Inr (Some [(''v1'', [''AWSCURRENT''])]), world_start)
   \<and> getSecretValue svc (secretsmanager_name svc) (Some ''t2'') world_start
       = (Inl not_found, world_start)
   \<and> getRandomPassword svc ExcludeCharacters world_start
       = (Inr ''new1'', world_start\<lparr>entropy := [''new2'']\<rparr>)
   \<and> calls (\<lambda>E. createSecret E ''t2'') svc world_start
       = [GetSecretValue ''db-cred'' None, DescribeSecret ''db-cred'',
          GetSecretValue ''db-cred'' (Some ''t2''), GetRandomPassword ExcludeCharacters,
          PutSecretValue ''db-cred'' ''t2''
            (Text (JObj [(''username'', JStr ''app''), (''password'', JStr ''new1''),
                         (''host'', JStr ''h''), (''port'', JNum (number 3306))]))
            [''AWSPENDING'']]"
proof -
  have a: "getSecretValue svc (secretsmanager_name svc) None world_start
       = (Inr (Text (JObj [(''username'', JStr ''app''), (''password'', JStr ''old''),
                           (''host'', JStr ''h''), (''port'', JNum (number 3306))])), world_start)"
    by (simp add: store_defs world_defs labelled_def)
  have b: "describeSecret svc (secretsmanager_name svc) world_start
       = (Inr (Some [(''v1'', [''AWSCURRENT''])]), world_start)"
    by (simp add: store_defs world_defs label_defs)
  have c: "getSecretValue svc (secretsmanager_name svc) (Some ''t2'') world_start
       = (Inl not_found, world_start)"
    by (simp add: store_defs world_defs)
  have d: "getRandomPassword svc ExcludeCharacters world_start
       = (Inr ''new1'', world_start\<lparr>entropy := [''new2'']\<rparr>)"
    by (simp add: store_defs world_defs ExcludeCharacters_def)
  have e: "calls (\<lambda>E. createSecret E ''t2'') svc world_start
       = [GetSecretValue ''db-cred'' None, DescribeSecret ''db-cred'',
          GetSecretValue ''db-cred'' (Some ''t2''), GetRandomPassword ExcludeCharacters,
          PutSecretValue ''db-cred'' ''t2''
            (Text (JObj [(''username'', JStr ''app''), (''password'', JStr ''new1''),
                         (''host'', JStr ''h''), (''port'', JNum (number 3306))]))
            [''AWSPENDING'']]"
    by (simp add: calls_def createSecret_def Let_def traced_def logged_def store_defs world_defs
        label_defs JSON_parse_def JSON_stringify_def ExcludeCharacters_def)
  have p: "proper (JObj [(''username'', JStr ''app''), (''password'', JStr ''old''),
      (''host'', JStr ''h''), (''port'', JNum (number 3306))])"
    by simp
  show ?thesis
    using createSecret_payload [OF a p b c d] a p b c d e by simp
qed

subsection \<open>C8: \<^verbatim>\<open>testSecret\<close> changes nothing\<close>

text \<open>
  C8: \<^verbatim>\<open>testSecret\<close> calls \<^verbatim>\<open>getSecretValue\<close> and \<^verbatim>\<open>createConnection\<close> and
  nothing else. So whatever can be observed of the world and is left alone by reading a
  secret value and by opening a connection (the contents and labels of the versions, the
  password of the target) is the same after any number of invocations, and no call of
  \<^verbatim>\<open>testSecret\<close> asks a service to change anything.
\<close>

theorem testSecret_alters_nothing:
  assumes "\<And>i v w. obs (snd (getSecretValue E i v w)) = obs w"
    and "\<And>c w. obs (snd (createConnection E c w)) = obs w"
  shows "obs (repeated (testSecret E token) k w) = obs w
       \<and> list_all (\<lambda>c. \<not> mutating c) (calls (\<lambda>E. testSecret E token) E w)"
  by (simp add: testSecret_repeated_obs [of obs E, OF assms] testSecret_reads)

theorem testSecret_alters_nothing_witness:
  "(\<forall>i v w. snd (getSecretValue svc i v w) = w)
   \<and> (\<forall>c w. snd (createConnection svc c w) = w)
   \<and> repeated (testSecret svc ''t2'') 3 world_pending = world_pending
   \<and> list_all (\<lambda>c. \<not> mutating c)
       (calls (\<lambda>E. testSecret E ''t2'') svc world_pending)"
proof -
  have a: "\<And>i v w. snd (getSecretValue svc i v w) = w"
    by (simp add: store_defs split: option.splits)
  have b: "\<And>c w. snd (createConnection svc c w) = w"
    by (simp add: store_defs)
  show ?thesis
    using testSecret_alters_nothing [of "\<lambda>w. w" "services ''db-cred''" "''t2''" 3 world_pending,
        OF a b] a b
    by simp
qed

subsection \<open>C9: an unknown step\<close>

text \<open>
  C9: for a step that is none of the four, the handler is fulfilled, leaves the world as
  it is and calls no service.
\<close>

theorem handler_unknown_step:
  "Step ev \<notin> {''createSecret'', ''setSecret'', ''testSecret'', ''finishSecret''} \<Longrightarrow>
   handler E ev w = (Inr (), w) \<and> calls (\<lambda>E. handler E ev) E w = []"
  by (simp add: handler_def calls_def)

theorem handler_unknown_step_witness:
  "Step \<lparr>Step = ''rotateSecret'', ClientRequestToken = ''t2'', SecretId = ''db-cred''\<rparr>
     \<notin> {''createSecret'', ''setSecret'', ''testSecret'', ''finishSecret''}
   \<and> handler svc
       \<lparr>Step = ''rotateSecret'', ClientRequestToken = ''t2'', SecretId = ''db-cred''\<rparr>
       world_pending = (Inr (), world_pending)
   \<and> calls (\<lambda>E. handler E
         \<lparr>Step = ''rotateSecret'', ClientRequestToken = ''t2'', SecretId = ''db-cred''\<rparr>)
       svc world_pending = []"
  using handler_unknown_step [of
      "\<lparr>Step = ''rotateSecret'', ClientRequestToken = ''t2'', SecretId = ''db-cred''\<rparr>"
      "services ''db-cred''" world_pending]
  by simp

subsection \<open>C10: the \<^verbatim>\<open>SecretId\<close> of the event\<close>

text \<open>
  C10: two events with the same step and the same token give the same result, the same
  world and the same calls, whatever their \<^verbatim>\<open>SecretId\<close>; every call that names a
  secret names the configured one.
\<close>

theorem handler_ignores_SecretId:
  "Step ev = Step ev' \<Longrightarrow> ClientRequestToken ev = ClientRequestToken ev' \<Longrightarrow>
   handler E ev w = handler E ev' w
   \<and> calls (\<lambda>E. handler E ev) E w = calls (\<lambda>E. handler E ev') E w
   \<and> list_all (\<lambda>c. secret_of c \<in> {None, Some (secretsmanager_name E)})
       (calls (\<lambda>E. handler E ev) E w)"
  using handler_names [of E ev w] by (simp add: handler_def calls_def)

theorem handler_ignores_SecretId_witness:
  "handler svc
     \<lparr>Step = ''finishSecret'', ClientRequestToken = ''t2'', SecretId = ''db-cred''\<rparr> world_pending
   = handler svc
     \<lparr>Step = ''finishSecret'', ClientRequestToken = ''t2'', SecretId = ''another-secret''\<rparr>
     world_pending
   \<and> calls (\<lambda>E. handler E
        \<lparr>Step = ''finishSecret'', ClientRequestToken = ''t2'', SecretId = ''another-secret''\<rparr>)
       svc world_pending
     = [DescribeSecret ''db-cred'',
        UpdateSecretVersionStage ''db-cred'' ''AWSCURRENT'' ''t2'' (Some ''v1''),
        DescribeSecret ''db-cred'']"
proof -
  have "calls (\<lambda>E. handler E
        \<lparr>Step = ''finishSecret'', ClientRequestToken = ''t2'', SecretId = ''db-cred''\<rparr>)
       svc world_pending
     = [DescribeSecret ''db-cred'',
        UpdateSecretVersionStage ''db-cred'' ''AWSCURRENT'' ''t2'' (Some ''v1''),
        DescribeSecret ''db-cred'']"
    by (simp add: calls_def handler_def Let_def finishSecret_def traced_def logged_def
        store_defs world_defs label_defs)
  then show ?thesis
    using handler_ignores_SecretId [of
      "\<lparr>Step = ''finishSecret'', ClientRequestToken = ''t2'', SecretId = ''db-cred''\<rparr>"
      "\<lparr>Step = ''finishSecret'', ClientRequestToken = ''t2'', SecretId = ''another-secret''\<rparr>"
      "services ''db-cred''" world_pending]
    by simp
qed

end
